theory Spec2Isabelle
  imports Complex_Main "HOL-Library.Option_ord" "HOL-Library.Product_Lexorder"
begin

section \<open>Configuration (config.py)\<close>

definition VALID_COUNTRIES :: "string set" where
  "VALID_COUNTRIES = {''DK'', ''FI'', ''SE'', ''NO''}"

definition COUNTRY_CURRENCY_MAP :: "string \<rightharpoonup> string" where
  "COUNTRY_CURRENCY_MAP =
     [''DK'' \<mapsto> ''DKK'', ''SE'' \<mapsto> ''SEK'', ''NO'' \<mapsto> ''NOK'', ''FI'' \<mapsto> ''EUR'']"

definition CONVERSION_RATES :: "string \<rightharpoonup> real" where
  "CONVERSION_RATES =
     [''EUR'' \<mapsto> 1, ''DKK'' \<mapsto> 134 / 1000, ''SEK'' \<mapsto> 94 / 1000, ''NOK'' \<mapsto> 87 / 1000]"

definition HIGH_VALUE_PERCENTILE :: real where
  "HIGH_VALUE_PERCENTILE = 80 / 100"

definition CHURN_DAYS :: int where
  "CHURN_DAYS = 50"

definition CHURN_Z_SCORE_THRESHOLD :: real where
  "CHURN_Z_SCORE_THRESHOLD = 2"

section \<open>The data frame library, as far as the pipeline uses it\<close>

text \<open>
  The pipeline is written against a data frame library (imported as \<open>pl\<close>). A column
  value of a frame is nullable: \<open>None\<close> is the library's null. Float columns are
  modelled by \<open>real\<close>; a Date is the number of days since the epoch and a Datetime the
  number of microseconds since the epoch, as the library stores them.

  The string functions and the parsers of the library are parameters of the model
  (the record \<open>polars\<close>): nothing below depends on which strings a parser accepts or on
  how a letter outside ASCII changes case. \<open>series_mode\<close> is the library's \<open>mode()\<close>:
  it returns the most frequent values of a column, in an order the library does not
  specify.
\<close>

datatype error = InvalidOperationError | ComputeError | AttributeError

record polars =
  str_to_uppercase :: "string \<Rightarrow> string"
  str_to_lowercase :: "string \<Rightarrow> string"
  str_to_date :: "string \<Rightarrow> int option"
  str_to_datetime :: "string \<Rightarrow> int option"
  series_mode :: "string list \<Rightarrow> string list"

text \<open>
  \<open>str.to_date(fmt)\<close> and \<open>str.to_datetime(fmt)\<close> are strict: a null stays null, and a
  string the format does not match raises.
\<close>

definition strptime_strict :: "(string \<Rightarrow> int option) \<Rightarrow> string option \<Rightarrow> error + int option" where
  "strptime_strict parse v =
     (case v of
        None \<Rightarrow> Inr None
      | Some s \<Rightarrow> (case parse s of None \<Rightarrow> Inl InvalidOperationError | Some d \<Rightarrow> Inr (Some d)))"

text \<open>\<open>with_columns\<close> over a table: the first row whose expression raises aborts the call.\<close>

fun with_columns :: "('a \<Rightarrow> error + 'b) \<Rightarrow> 'a list \<Rightarrow> error + 'b list" where
  "with_columns f [] = Inr []"
| "with_columns f (x # xs) =
     (case f x of
        Inl e \<Rightarrow> Inl e
      | Inr y \<Rightarrow> (case with_columns f xs of Inl e \<Rightarrow> Inl e | Inr ys \<Rightarrow> Inr (y # ys)))"

text \<open>\<open>unique(subset=[key], keep="first")\<close>: of the rows that share a key, the first stays.\<close>

fun unique_from :: "'k list \<Rightarrow> ('a \<Rightarrow> 'k) \<Rightarrow> 'a list \<Rightarrow> 'a list" where
  "unique_from seen key [] = []"
| "unique_from seen key (x # xs) =
     (if key x \<in> set seen then unique_from seen key xs
      else x # unique_from (key x # seen) key xs)"

definition unique_keep_first :: "('a \<Rightarrow> 'k) \<Rightarrow> 'a list \<Rightarrow> 'a list" where
  "unique_keep_first key xs = unique_from [] key xs"

section \<open>Cleaning (etl.py)\<close>

text \<open>
  A row of the customer frame and of the transaction frame. The type parameter is the
  type of the date column: \<open>string\<close> as loaded, \<open>int\<close> once parsed.
\<close>

record 'd customer_row =
  cr_customer_id :: "int option"
  cr_country :: "string option"
  cr_signup_date :: "'d option"
  cr_email :: "string option"

record 't transaction_row =
  tr_transaction_id :: "int option"
  tr_customer_id :: "int option"
  tr_amount :: "real option"
  tr_currency :: "string option"
  tr_timestamp :: "'t option"
  tr_category :: "string option"

definition customer_columns :: "polars \<Rightarrow> string customer_row \<Rightarrow> error + int customer_row" where
  "customer_columns pl r =
     (case strptime_strict (str_to_date pl) (cr_signup_date r) of
        Inl e \<Rightarrow> Inl e
      | Inr d \<Rightarrow>
          Inr \<lparr> cr_customer_id = cr_customer_id r,
                cr_country = map_option (str_to_uppercase pl) (cr_country r),
                cr_signup_date = d,
                cr_email = map_option (str_to_lowercase pl) (cr_email r) \<rparr>)"

definition customer_kept :: "int customer_row \<Rightarrow> bool" where
  "customer_kept r =
     (cr_customer_id r \<noteq> None \<and>
      (case cr_country r of None \<Rightarrow> False | Some c \<Rightarrow> c \<in> VALID_COUNTRIES))"

definition clean_customers :: "polars \<Rightarrow> string customer_row list \<Rightarrow> error + int customer_row list" where
  "clean_customers pl df =
     (case with_columns (customer_columns pl) df of
        Inl e \<Rightarrow> Inl e
      | Inr rows \<Rightarrow>
          Inr (sort_key cr_customer_id
                 (unique_keep_first cr_customer_id (filter customer_kept rows))))"

definition standardize :: "(string \<Rightarrow> string) \<Rightarrow> string option \<Rightarrow> string option" where
  "standardize conv v =
     (case v of
        None \<Rightarrow> Some ''NA''
      | Some s \<Rightarrow> if s = [] then Some ''NA'' else Some (conv s))"

definition transaction_columns :: "polars \<Rightarrow> string transaction_row \<Rightarrow> error + int transaction_row" where
  "transaction_columns pl r =
     (case strptime_strict (str_to_datetime pl) (tr_timestamp r) of
        Inl e \<Rightarrow> Inl e
      | Inr ts \<Rightarrow>
          Inr \<lparr> tr_transaction_id = tr_transaction_id r,
                tr_customer_id = tr_customer_id r,
                tr_amount = tr_amount r,
                tr_currency = standardize (str_to_uppercase pl) (tr_currency r),
                tr_timestamp = ts,
                tr_category = standardize (str_to_lowercase pl) (tr_category r) \<rparr>)"

definition transaction_kept :: "int transaction_row \<Rightarrow> bool" where
  "transaction_kept r =
     (tr_transaction_id r \<noteq> None \<and> tr_customer_id r \<noteq> None \<and>
      (case tr_amount r of None \<Rightarrow> False | Some a \<Rightarrow> a > 0))"

definition clean_transactions :: "polars \<Rightarrow> string transaction_row list \<Rightarrow> error + int transaction_row list" where
  "clean_transactions pl df =
     (case with_columns (transaction_columns pl) df of
        Inl e \<Rightarrow> Inl e
      | Inr rows \<Rightarrow>
          Inr (sort_key tr_transaction_id
                 (unique_keep_first tr_transaction_id (filter transaction_kept rows))))"

section \<open>The cleaned tables\<close>

text \<open>
  The later stages take cleaned tables. Their rows have no null where the cleaning
  stage leaves none: the keys, the country, the amount, and the currency and category,
  which carry the sentinel \<open>''NA''\<close> instead.
  The cleaning stage keeps a row whose timestamp, signup date or email is null, so
  these stay nullable.
\<close>

record customer =
  c_customer_id :: int
  c_country :: string
  c_signup_date :: "int option"
  c_email :: "string option"

record txn =
  transaction_id :: int
  customer_id :: int
  amount :: real
  currency :: string
  timestamp :: "int option"
  category :: string

record txn_eur = txn +
  amount_in_eur :: "real option"

section \<open>Currency resolution and the referential filter (etl.py)\<close>

text \<open>
  \<open>transactions.join(customers.select(["customer_id", "country"]), on="customer_id",
  how="left")\<close>: every transaction once for every customer row with its key, with that
  row's country, and once with a null country when no customer row has the key. The
  model keeps the rows in the order of the left table.
\<close>

definition left_join_country :: "txn list \<Rightarrow> customer list \<Rightarrow> (txn \<times> string option) list" where
  "left_join_country transactions customers =
     concat (map (\<lambda>t.
       (let ms = filter (\<lambda>c. c_customer_id c = customer_id t) customers
        in if ms = [] then [(t, None)] else map (\<lambda>c. (t, Some (c_country c))) ms))
       transactions)"

text \<open>
  \<open>replace_strict(mapping, default=d)\<close>: a value with no entry in the mapping, a null
  included, becomes the default.
\<close>

definition replace_strict :: "('a \<rightharpoonup> 'b) \<Rightarrow> 'b \<Rightarrow> 'a option \<Rightarrow> 'b" where
  "replace_strict mapping dflt v =
     (case v of
        None \<Rightarrow> dflt
      | Some x \<Rightarrow> (case mapping x of None \<Rightarrow> dflt | Some y \<Rightarrow> y))"

definition infer_currency_from_country :: "txn list \<Rightarrow> customer list \<Rightarrow> txn list" where
  "infer_currency_from_country transactions customers =
     map (\<lambda>(t, country).
            t\<lparr>currency :=
                (if currency t = ''NA'' then replace_strict COUNTRY_CURRENCY_MAP ''NA'' country
                 else currency t)\<rparr>)
         (left_join_country transactions customers)"

definition remove_orphan_transactions :: "txn list \<Rightarrow> customer list \<Rightarrow> txn list" where
  "remove_orphan_transactions transactions customers =
     (let valid_customer_ids = remdups (map c_customer_id customers)
      in filter (\<lambda>t. customer_id t \<in> set valid_customer_ids) transactions)"

text \<open>
  \<open>round(decimals)\<close> on a float column, ties away from zero. The floats of the code are
  reals here.
\<close>

definition round_to :: "nat \<Rightarrow> real \<Rightarrow> real" where
  "round_to decimals x = sgn x * of_int \<lfloor>\<bar>x\<bar> * 10 ^ decimals + 1 / 2\<rfloor> / 10 ^ decimals"

text \<open>
  \<open>replace_strict(config.CONVERSION_RATES, default=None)\<close> is the lookup in the rate
  table, null where the currency has no entry; a product with a null is null.
\<close>

definition add_amount_in_eur :: "txn list \<Rightarrow> txn_eur list" where
  "add_amount_in_eur transactions =
     map (\<lambda>t. txn.extend t
            (txn_eur.fields
               (map_option (\<lambda>rate. round_to 2 (amount t * rate)) (CONVERSION_RATES (currency t)))))
         transactions"

section \<open>Aggregations of the library\<close>

fun drop_nulls :: "'a option list \<Rightarrow> 'a list" where
  "drop_nulls [] = []"
| "drop_nulls (None # xs) = drop_nulls xs"
| "drop_nulls (Some x # xs) = x # drop_nulls xs"

text \<open>
  Every aggregation skips the nulls of its column. The sum of no value is 0; the
  mean, the minimum and the maximum of no value are null; the standard deviation is
  the sample one (divisor \<open>n - 1\<close>), null on fewer than two values.
\<close>

definition agg_sum :: "real option list \<Rightarrow> real" where
  "agg_sum col = sum_list (drop_nulls col)"

definition agg_mean :: "real option list \<Rightarrow> real option" where
  "agg_mean col =
     (let xs = drop_nulls col
      in if xs = [] then None else Some (sum_list xs / real (length xs)))"

definition agg_std :: "real option list \<Rightarrow> real option" where
  "agg_std col =
     (let xs = drop_nulls col; n = length xs
      in if n \<le> 1 then None
         else let m = sum_list xs / real n
              in Some (sqrt (sum_list (map (\<lambda>x. (x - m) ^ 2) xs) / real (n - 1))))"

definition agg_min :: "('a :: linorder) option list \<Rightarrow> 'a option" where
  "agg_min col = (case drop_nulls col of [] \<Rightarrow> None | x # xs \<Rightarrow> Some (fold min xs x))"

definition agg_max :: "('a :: linorder) option list \<Rightarrow> 'a option" where
  "agg_max col = (case drop_nulls col of [] \<Rightarrow> None | x # xs \<Rightarrow> Some (fold max xs x))"

text \<open>\<open>first()\<close> of a column: null when the column is empty.\<close>

definition first :: "'a list \<Rightarrow> 'a option" where
  "first col = (case col of [] \<Rightarrow> None | x # _ \<Rightarrow> Some x)"

text \<open>\<open>shift(1)\<close> within a group: every value moves one row down, the first row gets null.\<close>

definition shift1 :: "'a option list \<Rightarrow> 'a option list" where
  "shift1 col = (if col = [] then [] else None # butlast col)"

definition minus_nullable :: "int option \<Rightarrow> int option \<Rightarrow> int option" where
  "minus_nullable a b =
     (case a of None \<Rightarrow> None | Some x \<Rightarrow> (case b of None \<Rightarrow> None | Some y \<Rightarrow> Some (x - y)))"

text \<open>
  \<open>dt.date()\<close> of a Datetime in microseconds, and \<open>dt.total_days()\<close> of a Duration in
  microseconds (whole days, towards zero).
\<close>

definition dt_date :: "int \<Rightarrow> int" where
  "dt_date us = us div 86400000000"

definition total_days :: "int \<Rightarrow> int" where
  "total_days us = (if 0 \<le> us then us div 86400000000 else - ((- us) div 86400000000))"

text \<open>
  \<open>Series.quantile(q)\<close> with the library's default interpolation, \<open>"nearest"\<close>: the
  element of the sorted column at the index nearest to \<open>(n - 1) * q\<close>. It raises when
  \<open>q\<close> is outside \<open>[0, 1]\<close> and is null on an empty column.
\<close>

definition quantile :: "real list \<Rightarrow> real \<Rightarrow> error + real option" where
  "quantile col q =
     (if q < 0 \<or> 1 < q then Inl ComputeError
      else if col = [] then Inr None
      else Inr (Some (sort col ! nat (round ((real (length col) - 1) * q)))))"

text \<open>Comparisons of nullable values: null when an operand is null.\<close>

definition ge_nullable :: "('a :: linorder) option \<Rightarrow> 'a option \<Rightarrow> bool option" where
  "ge_nullable a b =
     (case a of None \<Rightarrow> None | Some x \<Rightarrow> (case b of None \<Rightarrow> None | Some y \<Rightarrow> Some (y \<le> x)))"

definition gt_nullable :: "('a :: linorder) option \<Rightarrow> 'a option \<Rightarrow> bool option" where
  "gt_nullable a b =
     (case a of None \<Rightarrow> None | Some x \<Rightarrow> (case b of None \<Rightarrow> None | Some y \<Rightarrow> Some (y < x)))"

section \<open>Feature engineering (features.py)\<close>

record features =
  f_customer_id :: int
  total_spend :: real
  avg_transaction_amount :: "real option"
  std_transaction_amount :: "real option"
  min_transaction_amount :: "real option"
  max_transaction_amount :: "real option"
  transaction_count :: nat
  last_transaction_date :: "int option"
  first_transaction_date :: "int option"
  preferred_category :: "string option"
  preferred_currency :: "string option"
  days_since_last_transaction :: "int option"
  customer_tenure_days :: "int option"
  mean_interevent_days :: "real option"
  std_interevent_days :: "real option"

record flagged = features +
  is_high_value :: "bool option"
  is_churning :: "bool option"
  is_churning_2 :: "bool option"
  has_single_transaction :: bool

text \<open>
  The rows of one customer in row order: a group of \<open>group_by("customer_id")\<close>, and the
  window of \<open>over("customer_id")\<close>.
\<close>

definition group_of :: "int \<Rightarrow> 'a txn_scheme list \<Rightarrow> 'a txn_scheme list" where
  "group_of c transactions = filter (\<lambda>t. customer_id t = c) transactions"

text \<open>
  The interevent column of one customer: the table sorted by customer and timestamp
  (nulls first), each timestamp minus the one before it in the customer's window, in
  whole days.
\<close>

definition interevent_days :: "int \<Rightarrow> txn_eur list \<Rightarrow> int option list" where
  "interevent_days c transactions =
     (let transactions_sorted = sort_key (\<lambda>t. (customer_id t, timestamp t)) transactions;
          col = map timestamp (group_of c transactions_sorted)
      in map (map_option total_days) (map2 minus_nullable col (shift1 col)))"

text \<open>
  The row of \<open>interevent_stats\<close> as the left join attaches it: the rows with a null
  difference are filtered out first, and a customer with no row left has no row in
  \<open>interevent_stats\<close>, hence nulls after the join.
\<close>

definition interevent_stats :: "int \<Rightarrow> txn_eur list \<Rightarrow> real option \<times> real option" where
  "interevent_stats c transactions =
     (let days = map (\<lambda>d. Some (real_of_int d)) (drop_nulls (interevent_days c transactions))
      in if days = [] then (None, None) else (agg_mean days, agg_std days))"

definition rfm_row :: "polars \<Rightarrow> int \<Rightarrow> txn_eur list \<Rightarrow> int \<Rightarrow> features" where
  "rfm_row pl reference_date transactions c =
     (let g = group_of c transactions;
          last = agg_max (map timestamp g);
          first_ts = agg_min (map timestamp g);
          stats = interevent_stats c transactions
      in \<lparr> f_customer_id = c,
           total_spend = round_to 2 (agg_sum (map amount_in_eur g)),
           avg_transaction_amount = map_option (round_to 2) (agg_mean (map amount_in_eur g)),
           std_transaction_amount = map_option (round_to 2) (agg_std (map amount_in_eur g)),
           min_transaction_amount = agg_min (map amount_in_eur g),
           max_transaction_amount = agg_max (map amount_in_eur g),
           transaction_count = length (map transaction_id g),
           last_transaction_date = last,
           first_transaction_date = first_ts,
           preferred_category = first (series_mode pl (map category g)),
           preferred_currency = first (series_mode pl (map currency g)),
           days_since_last_transaction = map_option (\<lambda>l. reference_date - dt_date l) last,
           customer_tenure_days =
             minus_nullable (map_option dt_date last) (map_option dt_date first_ts),
           mean_interevent_days = fst stats,
           std_interevent_days = snd stats \<rparr>)"

text \<open>
  \<open>compute_rfm_features\<close>. Without a reference date the date of the latest timestamp of
  the table is taken; on a table with no timestamp that maximum is \<open>None\<close> and
  \<open>.date()\<close> raises. The library leaves the order of the groups open; the model lists
  them by \<open>remdups\<close>, and no theorem depends on the order.
\<close>

definition compute_rfm_features :: "polars \<Rightarrow> txn_eur list \<Rightarrow> int option \<Rightarrow> error + features list" where
  "compute_rfm_features pl transactions reference_date =
     (case (case reference_date of
              Some d \<Rightarrow> Inr d
            | None \<Rightarrow> (case agg_max (map timestamp transactions) of
                         None \<Rightarrow> Inl AttributeError
                       | Some m \<Rightarrow> Inr (dt_date m))) of
        Inl e \<Rightarrow> Inl e
      | Inr d \<Rightarrow> Inr (map (rfm_row pl d transactions) (remdups (map customer_id transactions))))"

definition flag_row :: "real option \<Rightarrow> int \<Rightarrow> features \<Rightarrow> flagged" where
  "flag_row high_value_threshold churn_days r =
     features.extend r
       (flagged.fields
          (ge_nullable (Some (total_spend r)) high_value_threshold)
          (ge_nullable (days_since_last_transaction r) (Some churn_days))
          (gt_nullable (map_option real_of_int (days_since_last_transaction r))
             (case mean_interevent_days r of
                None \<Rightarrow> None
              | Some m \<Rightarrow> (case std_interevent_days r of
                            None \<Rightarrow> None
                          | Some s \<Rightarrow> Some (m + CHURN_Z_SCORE_THRESHOLD * s))))
          (transaction_count r = 1))"

definition add_customer_flags :: "features list \<Rightarrow> real option \<Rightarrow> int option \<Rightarrow> error + flagged list" where
  "add_customer_flags feats high_value_percentile churn_days =
     (let p = (case high_value_percentile of None \<Rightarrow> HIGH_VALUE_PERCENTILE | Some x \<Rightarrow> x);
          cd = (case churn_days of None \<Rightarrow> CHURN_DAYS | Some x \<Rightarrow> x)
      in case quantile (map total_spend feats) p of
           Inl e \<Rightarrow> Inl e
         | Inr high_value_threshold \<Rightarrow> Inr (map (flag_row high_value_threshold cd) feats))"

section \<open>Reference notions of the specification\<close>

text \<open>The most frequent values of a column, and what the library's \<open>mode()\<close> promises.\<close>

definition most_frequent :: "'a list \<Rightarrow> 'a set" where
  "most_frequent col = {x \<in> set col. \<forall>y \<in> set col. count_list col y \<le> count_list col x}"

definition mode_contract :: "(string list \<Rightarrow> string list) \<Rightarrow> bool" where
  "mode_contract m = (\<forall>col. set (m col) = most_frequent col)"

text \<open>
  The stable mode of the specification: of the most frequent values, the one that
  occurs first in row order.
\<close>

definition stable_mode :: "'a list \<Rightarrow> 'a option" where
  "stable_mode col = List.find (\<lambda>x. \<forall>y \<in> set col. count_list col y \<le> count_list col x) col"

text \<open>Two functions that keep the promise of \<open>mode()\<close>, with the values in opposite orders.\<close>

definition mode_in_order :: "string list \<Rightarrow> string list" where
  "mode_in_order col =
     filter (\<lambda>x. \<forall>y \<in> set col. count_list col y \<le> count_list col x) (rev (remdups (rev col)))"

definition mode_reversed :: "string list \<Rightarrow> string list" where
  "mode_reversed col = rev (mode_in_order col)"

text \<open>
  The quantile by linear interpolation between order statistics, as the specification
  asks for it.
\<close>

definition quantile_linear :: "real list \<Rightarrow> real \<Rightarrow> real" where
  "quantile_linear col q =
     (let s = sort col; h = (real (length col) - 1) * q; lo = nat \<lfloor>h\<rfloor>; hi = nat \<lceil>h\<rceil>
      in s ! lo + (h - real lo) * (s ! hi - s ! lo))"

section \<open>An instance of the library and example rows, for checks at concrete inputs\<close>

definition ascii_upper :: "char \<Rightarrow> char" where
  "ascii_upper c =
     (case map_of (zip ''abcdefghijklmnopqrstuvwxyz'' ''ABCDEFGHIJKLMNOPQRSTUVWXYZ'') c of
        None \<Rightarrow> c
      | Some u \<Rightarrow> u)"

definition ascii_lower :: "char \<Rightarrow> char" where
  "ascii_lower c =
     (case map_of (zip ''ABCDEFGHIJKLMNOPQRSTUVWXYZ'' ''abcdefghijklmnopqrstuvwxyz'') c of
        None \<Rightarrow> c
      | Some l \<Rightarrow> l)"

text \<open>
  Case conversion on ASCII letters, a date parser that knows \<open>2024-01-15\<close> (day 19737)
  and a datetime parser that knows \<open>2024-01-15 10:00:00\<close>.
\<close>

definition example_pl :: polars where
  "example_pl =
     \<lparr> str_to_uppercase = map ascii_upper,
       str_to_lowercase = map ascii_lower,
       str_to_date = [''2024-01-15'' \<mapsto> 19737],
       str_to_datetime = [''2024-01-15 10:00:00'' \<mapsto> 1705312800000000],
       series_mode = mode_in_order \<rparr>"

definition example_raw_customers :: "string customer_row list" where
  "example_raw_customers =
     [\<lparr> cr_customer_id = Some 2, cr_country = Some ''dk'', cr_signup_date = Some ''2024-01-15'',
         cr_email = Some ''Ann@Example.COM'' \<rparr>,
      \<lparr> cr_customer_id = Some 3, cr_country = Some ''DE'', cr_signup_date = None, cr_email = None \<rparr>,
      \<lparr> cr_customer_id = Some 2, cr_country = Some ''FI'', cr_signup_date = None, cr_email = None \<rparr>,
      \<lparr> cr_customer_id = None, cr_country = Some ''SE'', cr_signup_date = None, cr_email = None \<rparr>,
      \<lparr> cr_customer_id = Some 1, cr_country = Some ''Se'', cr_signup_date = None, cr_email = None \<rparr>]"

definition example_raw_transactions :: "string transaction_row list" where
  "example_raw_transactions =
     [\<lparr> tr_transaction_id = Some 7, tr_customer_id = Some 2, tr_amount = Some 100,
         tr_currency = Some ''dkk'', tr_timestamp = Some ''2024-01-15 10:00:00'',
         tr_category = Some ''Food'' \<rparr>,
      \<lparr> tr_transaction_id = Some 5, tr_customer_id = Some 1, tr_amount = Some 50,
         tr_currency = None, tr_timestamp = None, tr_category = Some [] \<rparr>,
      \<lparr> tr_transaction_id = Some 7, tr_customer_id = Some 1, tr_amount = Some 1,
         tr_currency = Some ''EUR'', tr_timestamp = None, tr_category = None \<rparr>,
      \<lparr> tr_transaction_id = Some 6, tr_customer_id = Some 1, tr_amount = Some 0,
         tr_currency = Some ''EUR'', tr_timestamp = None, tr_category = None \<rparr>,
      \<lparr> tr_transaction_id = Some 8, tr_customer_id = None, tr_amount = Some 3,
         tr_currency = Some ''EUR'', tr_timestamp = None, tr_category = None \<rparr>]"

definition example_customers :: "customer list" where
  "example_customers =
     [\<lparr> c_customer_id = 1, c_country = ''DK'', c_signup_date = Some 19737, c_email = None \<rparr>,
      \<lparr> c_customer_id = 2, c_country = ''FI'', c_signup_date = None, c_email = Some ''b@x.fi'' \<rparr>,
      \<lparr> c_customer_id = 3, c_country = ''IS'', c_signup_date = None, c_email = None \<rparr>]"

definition example_transactions :: "txn list" where
  "example_transactions =
     [\<lparr> transaction_id = 1, customer_id = 1, amount = 100, currency = ''DKK'',
         timestamp = Some 86400000000, category = ''food'' \<rparr>,
      \<lparr> transaction_id = 2, customer_id = 1, amount = 100, currency = ''NA'',
         timestamp = Some 864000000000, category = ''NA'' \<rparr>,
      \<lparr> transaction_id = 3, customer_id = 2, amount = 50, currency = ''NA'',
         timestamp = Some 86400000000, category = ''food'' \<rparr>,
      \<lparr> transaction_id = 4, customer_id = 3, amount = 10, currency = ''NA'',
         timestamp = None, category = ''toys'' \<rparr>,
      \<lparr> transaction_id = 5, customer_id = 9, amount = 7, currency = ''NA'',
         timestamp = Some 0, category = ''toys'' \<rparr>]"

text \<open>The currency a row gets from the customer table, when customer ids are unique.\<close>

definition inferred_currency :: "customer list \<Rightarrow> txn \<Rightarrow> string" where
  "inferred_currency customers t =
     (if currency t = ''NA''
      then replace_strict COUNTRY_CURRENCY_MAP ''NA''
             (map_option c_country (find (\<lambda>c. c_customer_id c = customer_id t) customers))
      else currency t)"

text \<open>A feature row of a customer with one transaction, with the given id and total spend.\<close>

definition example_feature :: "int \<Rightarrow> real \<Rightarrow> features" where
  "example_feature c spend =
     \<lparr> f_customer_id = c, total_spend = spend,
       avg_transaction_amount = Some spend, std_transaction_amount = None,
       min_transaction_amount = Some spend, max_transaction_amount = Some spend,
       transaction_count = 1,
       last_transaction_date = Some 86400000000, first_transaction_date = Some 86400000000,
       preferred_category = Some ''food'', preferred_currency = Some ''EUR'',
       days_since_last_transaction = Some 9, customer_tenure_days = Some 0,
       mean_interevent_days = None, std_interevent_days = None \<rparr>"

definition example_features :: "features list" where
  "example_features =
     [example_feature 1 0, example_feature 2 10, example_feature 3 20, example_feature 4 30]"

text \<open>
  Two transactions with amounts in EUR: customer 1 has a timestamp on day 1, customer 3
  has none.
\<close>

definition example_table :: "txn_eur list" where
  "example_table = add_amount_in_eur [example_transactions ! 0, example_transactions ! 3]"

text \<open>
  The converted amounts that count for a customer, in the words of the specification:
  those of the customer's transactions whose currency has a conversion rate, each the
  amount times the rate, rounded to 2 decimals.
\<close>

definition converted_amounts :: "int \<Rightarrow> txn list \<Rightarrow> real list" where
  "converted_amounts c transactions =
     concat (map (\<lambda>t. case CONVERSION_RATES (currency t) of
                         None \<Rightarrow> []
                       | Some rate \<Rightarrow> [round_to 2 (amount t * rate)])
               (filter (\<lambda>t. customer_id t = c) transactions))"

text \<open>Two transactions of customer 1 of 10 units each, one in EUR, one in an unknown currency.\<close>

definition example_unmapped :: "txn list" where
  "example_unmapped =
     [\<lparr> transaction_id = 1, customer_id = 1, amount = 10, currency = ''EUR'',
         timestamp = Some 0, category = ''food'' \<rparr>,
      \<lparr> transaction_id = 2, customer_id = 1, amount = 10, currency = ''XXX'',
         timestamp = Some 0, category = ''toys'' \<rparr>]"

section \<open>Properties of the cleaning stage\<close>

lemma unique_from_subset: "set (unique_from seen key xs) \<subseteq> set xs"
  by (induction xs arbitrary: seen) auto

lemma unique_from_fresh: "x \<in> set (unique_from seen key xs) \<Longrightarrow> key x \<notin> set seen"
proof (induction xs arbitrary: seen)
  case Nil
  then show ?case by simp
next
  case (Cons a xs)
  show ?case
  proof (cases "key a \<in> set seen")
    case True
    with Cons show ?thesis by simp
  next
    case False
    with Cons.prems have "x = a \<or> x \<in> set (unique_from (key a # seen) key xs)"
      by simp
    then show ?thesis
    proof
      assume "x = a"
      with False show ?thesis by simp
    next
      assume "x \<in> set (unique_from (key a # seen) key xs)"
      then have "key x \<notin> set (key a # seen)" by (rule Cons.IH)
      then show ?thesis by simp
    qed
  qed
qed

lemma unique_from_distinct: "distinct (map key (unique_from seen key xs))"
proof (induction xs arbitrary: seen)
  case Nil
  show ?case by simp
next
  case (Cons x xs)
  have "key x \<notin> key ` set (unique_from (key x # seen) key xs)"
  proof
    assume "key x \<in> key ` set (unique_from (key x # seen) key xs)"
    then obtain y where y: "y \<in> set (unique_from (key x # seen) key xs)" "key y = key x"
      by auto
    from y(1) have "key y \<notin> set (key x # seen)" by (rule unique_from_fresh)
    with y(2) show False by simp
  qed
  with Cons show ?case by simp
qed

lemma distinct_map_sort_key: "distinct (map f (sort_key f xs)) = distinct (map f xs)"
  by (induction xs) (simp_all add: distinct_insort_key)

lemma with_columns_set:
  "with_columns f xs = Inr ys \<Longrightarrow> y \<in> set ys \<Longrightarrow> \<exists>x \<in> set xs. f x = Inr y"
proof (induction xs arbitrary: ys)
  case Nil
  then show ?case by simp
next
  case (Cons x xs)
  then show ?case
    by (auto split: sum.splits)
qed

lemma cleaned_customers_rows:
  assumes "clean_customers pl df = Inr cs"
  obtains rows where "with_columns (customer_columns pl) df = Inr rows"
    and "cs = sort_key cr_customer_id (unique_keep_first cr_customer_id (filter customer_kept rows))"
  using assms by (auto simp: clean_customers_def split: sum.splits)

lemma cleaned_transactions_rows:
  assumes "clean_transactions pl df = Inr ts"
  obtains rows where "with_columns (transaction_columns pl) df = Inr rows"
    and "ts = sort_key tr_transaction_id
                (unique_keep_first tr_transaction_id (filter transaction_kept rows))"
  using assms by (auto simp: clean_transactions_def split: sum.splits)

lemma standardize_not_null: "standardize conv v \<noteq> None"
  by (simp add: standardize_def split: option.splits)

lemma standardize_sentinel: "v = None \<or> v = Some [] \<Longrightarrow> standardize conv v = Some ''NA''"
  by (auto simp: standardize_def)

lemma transaction_columns_fields:
  assumes "transaction_columns pl raw = Inr r"
  shows "tr_transaction_id r = tr_transaction_id raw"
    and "tr_currency r = standardize (str_to_uppercase pl) (tr_currency raw)"
    and "tr_category r = standardize (str_to_lowercase pl) (tr_category raw)"
  using assms by (auto simp: transaction_columns_def split: sum.splits)

lemma clean_customers_invariant:
  assumes "clean_customers pl df = Inr cs"
  shows "distinct (map cr_customer_id cs)"
    and "r \<in> set cs \<Longrightarrow> cr_customer_id r \<noteq> None \<and> (\<exists>c \<in> VALID_COUNTRIES. cr_country r = Some c)"
proof -
  from assms obtain rows where
    cs: "cs = sort_key cr_customer_id (unique_keep_first cr_customer_id (filter customer_kept rows))"
    by (rule cleaned_customers_rows)
  show "distinct (map cr_customer_id cs)"
    by (simp add: cs distinct_map_sort_key unique_keep_first_def unique_from_distinct)
  assume "r \<in> set cs"
  then have "r \<in> set (unique_from [] cr_customer_id (filter customer_kept rows))"
    by (simp add: cs unique_keep_first_def)
  then have "r \<in> set (filter customer_kept rows)"
    by (rule subsetD [OF unique_from_subset])
  then have "customer_kept r" by simp
  then show "cr_customer_id r \<noteq> None \<and> (\<exists>c \<in> VALID_COUNTRIES. cr_country r = Some c)"
    by (auto simp: customer_kept_def split: option.splits)
qed

lemma clean_transactions_invariant:
  assumes "clean_transactions pl df = Inr ts"
  shows "distinct (map tr_transaction_id ts)"
    and "r \<in> set ts \<Longrightarrow>
         tr_transaction_id r \<noteq> None \<and> (\<exists>a. tr_amount r = Some a \<and> 0 < a) \<and>
         tr_currency r \<noteq> None \<and> tr_category r \<noteq> None \<and>
         (\<exists>raw \<in> set df.
            tr_transaction_id raw = tr_transaction_id r \<and>
            ((tr_currency raw = None \<or> tr_currency raw = Some []) \<longrightarrow> tr_currency r = Some ''NA'') \<and>
            ((tr_category raw = None \<or> tr_category raw = Some []) \<longrightarrow> tr_category r = Some ''NA''))"
proof -
  from assms obtain rows where
    rows: "with_columns (transaction_columns pl) df = Inr rows" and
    ts: "ts = sort_key tr_transaction_id
                (unique_keep_first tr_transaction_id (filter transaction_kept rows))"
    by (rule cleaned_transactions_rows)
  show "distinct (map tr_transaction_id ts)"
    by (simp add: ts distinct_map_sort_key unique_keep_first_def unique_from_distinct)
  assume "r \<in> set ts"
  then have "r \<in> set (unique_from [] tr_transaction_id (filter transaction_kept rows))"
    by (simp add: ts unique_keep_first_def)
  then have "r \<in> set (filter transaction_kept rows)"
    by (rule subsetD [OF unique_from_subset])
  then have kept: "transaction_kept r" and "r \<in> set rows" by simp_all
  from with_columns_set [OF rows \<open>r \<in> set rows\<close>]
  obtain raw where raw: "raw \<in> set df" "transaction_columns pl raw = Inr r"
    by (rule bexE)
  note r = transaction_columns_fields [OF raw(2)]
  have "tr_transaction_id r \<noteq> None" "\<exists>a. tr_amount r = Some a \<and> 0 < a"
    using kept by (auto simp: transaction_kept_def split: option.splits)
  moreover have "tr_currency r \<noteq> None" "tr_category r \<noteq> None"
    by (simp_all add: r standardize_not_null)
  moreover have "tr_transaction_id raw = tr_transaction_id r"
    by (simp add: r)
  moreover have "(tr_currency raw = None \<or> tr_currency raw = Some []) \<longrightarrow> tr_currency r = Some ''NA''"
    using standardize_sentinel [of "tr_currency raw"] by (simp add: r)
  moreover have "(tr_category raw = None \<or> tr_category raw = Some []) \<longrightarrow> tr_category r = Some ''NA''"
    using standardize_sentinel [of "tr_category raw"] by (simp add: r)
  ultimately show "tr_transaction_id r \<noteq> None \<and> (\<exists>a. tr_amount r = Some a \<and> 0 < a) \<and>
         tr_currency r \<noteq> None \<and> tr_category r \<noteq> None \<and>
         (\<exists>raw \<in> set df.
            tr_transaction_id raw = tr_transaction_id r \<and>
            ((tr_currency raw = None \<or> tr_currency raw = Some []) \<longrightarrow> tr_currency r = Some ''NA'') \<and>
            ((tr_category raw = None \<or> tr_category raw = Some []) \<longrightarrow> tr_category r = Some ''NA''))"
    using raw(1) by (intro conjI bexI [of _ raw]) assumption+
qed

text \<open>
  C9. Whenever the cleaning of a raw table returns, the cleaned customer table has
  unique \<open>customer_id\<close> values, none of them null, and every country in the valid set.
  The cleaned transaction table has unique \<open>transaction_id\<close> values, none of them null,
  a positive amount in every row, and a currency and a category that are never null:
  where the raw value was null or empty the row carries the sentinel \<open>''NA''\<close>.
\<close>

theorem clean_invariants:
  "(clean_customers pl cdf = Inr cs \<longrightarrow>
      distinct (map cr_customer_id cs) \<and>
      (\<forall>r \<in> set cs. cr_customer_id r \<noteq> None \<and> (\<exists>c \<in> VALID_COUNTRIES. cr_country r = Some c))) \<and>
   (clean_transactions pl tdf = Inr ts \<longrightarrow>
      distinct (map tr_transaction_id ts) \<and>
      (\<forall>r \<in> set ts.
         tr_transaction_id r \<noteq> None \<and> (\<exists>a. tr_amount r = Some a \<and> 0 < a) \<and>
         tr_currency r \<noteq> None \<and> tr_category r \<noteq> None \<and>
         (\<exists>raw \<in> set tdf.
            tr_transaction_id raw = tr_transaction_id r \<and>
            ((tr_currency raw = None \<or> tr_currency raw = Some []) \<longrightarrow> tr_currency r = Some ''NA'') \<and>
            ((tr_category raw = None \<or> tr_category raw = Some []) \<longrightarrow> tr_category r = Some ''NA''))))"
  using clean_customers_invariant [of pl cdf cs] clean_transactions_invariant [of pl tdf ts]
  by blast

theorem clean_invariants_witness:
  "clean_customers example_pl example_raw_customers =
     Inr [\<lparr> cr_customer_id = Some 1, cr_country = Some ''SE'', cr_signup_date = None,
            cr_email = None \<rparr>,
          \<lparr> cr_customer_id = Some 2, cr_country = Some ''DK'', cr_signup_date = Some 19737,
            cr_email = Some ''ann@example.com'' \<rparr>] \<and>
   clean_transactions example_pl example_raw_transactions =
     Inr [\<lparr> tr_transaction_id = Some 5, tr_customer_id = Some 1, tr_amount = Some 50,
            tr_currency = Some ''NA'', tr_timestamp = None, tr_category = Some ''NA'' \<rparr>,
          \<lparr> tr_transaction_id = Some 7, tr_customer_id = Some 2, tr_amount = Some 100,
            tr_currency = Some ''DKK'', tr_timestamp = Some 1705312800000000,
            tr_category = Some ''food'' \<rparr>] \<and>
   distinct (map cr_customer_id
     [\<lparr> cr_customer_id = Some 1, cr_country = Some ''SE'', cr_signup_date = None,
            cr_email = None \<rparr>,
          \<lparr> cr_customer_id = Some 2, cr_country = Some ''DK'', cr_signup_date = Some (19737 :: int),
            cr_email = Some ''ann@example.com'' \<rparr>])"
proof -
  have c: "clean_customers example_pl example_raw_customers =
     Inr [\<lparr> cr_customer_id = Some 1, cr_country = Some ''SE'', cr_signup_date = None,
            cr_email = None \<rparr>,
          \<lparr> cr_customer_id = Some 2, cr_country = Some ''DK'', cr_signup_date = Some 19737,
            cr_email = Some ''ann@example.com'' \<rparr>]"
    by (simp add: clean_customers_def example_raw_customers_def customer_columns_def
        strptime_strict_def example_pl_def customer_kept_def VALID_COUNTRIES_def
        unique_keep_first_def ascii_upper_def ascii_lower_def)
  have t: "clean_transactions example_pl example_raw_transactions =
     Inr [\<lparr> tr_transaction_id = Some 5, tr_customer_id = Some 1, tr_amount = Some 50,
            tr_currency = Some ''NA'', tr_timestamp = None, tr_category = Some ''NA'' \<rparr>,
          \<lparr> tr_transaction_id = Some 7, tr_customer_id = Some 2, tr_amount = Some 100,
            tr_currency = Some ''DKK'', tr_timestamp = Some 1705312800000000,
            tr_category = Some ''food'' \<rparr>]"
    by (simp add: clean_transactions_def example_raw_transactions_def transaction_columns_def
        strptime_strict_def example_pl_def transaction_kept_def standardize_def
        unique_keep_first_def ascii_upper_def ascii_lower_def)
  from clean_invariants [of example_pl example_raw_customers _ example_raw_transactions] c t
  show ?thesis by blast
qed

section \<open>Properties of currency inference and of the referential filter\<close>

lemma filter_key_distinct:
  "distinct (map key xs) \<Longrightarrow>
   filter (\<lambda>c. key c = v) xs = (case find (\<lambda>c. key c = v) xs of None \<Rightarrow> [] | Some c \<Rightarrow> [c])"
proof (induction xs)
  case Nil
  then show ?case by simp
next
  case (Cons x xs)
  show ?case
  proof (cases "key x = v")
    case True
    with Cons.prems have "\<forall>c \<in> set xs. key c \<noteq> v" by (auto simp: image_iff)
    then have "filter (\<lambda>c. key c = v) xs = []" by (simp add: filter_empty_conv)
    with True show ?thesis by simp
  next
    case False
    with Cons show ?thesis by simp
  qed
qed

lemma left_join_country_unique:
  assumes "distinct (map c_customer_id customers)"
  shows "left_join_country transactions customers =
         map (\<lambda>t. (t, map_option c_country
                        (find (\<lambda>c. c_customer_id c = customer_id t) customers))) transactions"
proof (induction transactions)
  case Nil
  show ?case by (simp add: left_join_country_def)
next
  case (Cons t ts)
  have "filter (\<lambda>c. c_customer_id c = customer_id t) customers =
        (case find (\<lambda>c. c_customer_id c = customer_id t) customers of None \<Rightarrow> [] | Some c \<Rightarrow> [c])"
    using assms by (rule filter_key_distinct)
  then have "(let ms = filter (\<lambda>c. c_customer_id c = customer_id t) customers
              in if ms = [] then [(t, None)] else map (\<lambda>c. (t, Some (c_country c))) ms) =
             [(t, map_option c_country (find (\<lambda>c. c_customer_id c = customer_id t) customers))]"
    by (simp split: option.splits)
  with Cons show ?case
    by (simp add: left_join_country_def)
qed

lemma infer_unique:
  assumes "distinct (map c_customer_id customers)"
  shows "infer_currency_from_country transactions customers =
         map (\<lambda>t. t\<lparr>currency := inferred_currency customers t\<rparr>) transactions"
  by (simp add: infer_currency_from_country_def left_join_country_unique [OF assms]
      inferred_currency_def o_def)

lemma inferred_currency_again:
  "inferred_currency customers (t\<lparr>currency := inferred_currency customers t\<rparr>) =
   inferred_currency customers t"
  by (simp add: inferred_currency_def)

lemma inferred_currency_cases:
  "inferred_currency customers t \<noteq> currency t \<Longrightarrow>
   currency t = ''NA'' \<and>
   (\<exists>c \<in> set customers. c_customer_id c = customer_id t \<and>
      COUNTRY_CURRENCY_MAP (c_country c) = Some (inferred_currency customers t))"
proof -
  assume neq: "inferred_currency customers t \<noteq> currency t"
  then have na: "currency t = ''NA''"
    by (auto simp: inferred_currency_def split: if_splits)
  from neq na obtain c where c: "find (\<lambda>c. c_customer_id c = customer_id t) customers = Some c"
    by (cases "find (\<lambda>c. c_customer_id c = customer_id t) customers")
       (auto simp: inferred_currency_def replace_strict_def)
  then have "c \<in> set customers" "c_customer_id c = customer_id t"
    by (auto simp: find_Some_iff)
  moreover from neq na c have "COUNTRY_CURRENCY_MAP (c_country c) = Some (inferred_currency customers t)"
    by (auto simp: inferred_currency_def replace_strict_def split: option.splits)
  ultimately show ?thesis using na by blast
qed

lemma inferred_currency_sentinel:
  assumes "distinct (map c_customer_id customers)" and "currency t = ''NA''"
    and "customer_id t \<notin> c_customer_id ` set customers \<or>
         (\<exists>c \<in> set customers. c_customer_id c = customer_id t \<and>
            COUNTRY_CURRENCY_MAP (c_country c) = None)"
  shows "inferred_currency customers t = ''NA''"
proof (cases "find (\<lambda>c. c_customer_id c = customer_id t) customers")
  case None
  with assms(2) show ?thesis by (simp add: inferred_currency_def replace_strict_def)
next
  case (Some c)
  then have c: "c \<in> set customers" "c_customer_id c = customer_id t"
    by (auto simp: find_Some_iff)
  then have "customer_id t \<in> c_customer_id ` set customers"
    by force
  with assms(3) obtain c' where c': "c' \<in> set customers" "c_customer_id c' = customer_id t"
    "COUNTRY_CURRENCY_MAP (c_country c') = None"
    by blast
  from assms(1) c c'(1,2) have "c' = c"
    by (metis distinct_map inj_onD)
  with c'(3) Some assms(2) show ?thesis
    by (simp add: inferred_currency_def replace_strict_def)
qed

text \<open>
  C8. The output of \<open>remove_orphan_transactions\<close> is the input table restricted to the
  rows whose \<open>customer_id\<close> occurs in the customer table, each row as it was and in the
  same order; hence the customer ids of the output are among those of the customer
  table.
\<close>

theorem remove_orphan_transactions_exact:
  "remove_orphan_transactions transactions customers =
     filter (\<lambda>t. \<exists>c \<in> set customers. c_customer_id c = customer_id t) transactions \<and>
   set (remove_orphan_transactions transactions customers) =
     {t \<in> set transactions. customer_id t \<in> c_customer_id ` set customers} \<and>
   customer_id ` set (remove_orphan_transactions transactions customers) \<subseteq>
     c_customer_id ` set customers"
proof -
  have eq: "remove_orphan_transactions transactions customers =
     filter (\<lambda>t. \<exists>c \<in> set customers. c_customer_id c = customer_id t) transactions"
    unfolding remove_orphan_transactions_def Let_def
    by (rule filter_cong) (auto simp: image_iff intro: sym)
  then show ?thesis by (auto simp: image_iff intro: sym)
qed

theorem remove_orphan_transactions_exact_witness:
  "remove_orphan_transactions example_transactions example_customers = take 4 example_transactions \<and>
   customer_id ` set (remove_orphan_transactions example_transactions example_customers) \<subseteq>
     c_customer_id ` set example_customers"
proof -
  have "remove_orphan_transactions example_transactions example_customers =
        take 4 example_transactions"
    by (simp add: remove_orphan_transactions_def example_transactions_def example_customers_def)
  with remove_orphan_transactions_exact [of example_transactions example_customers]
  show ?thesis by auto
qed

text \<open>
  C7. With unique customer ids, \<open>infer_currency_from_country\<close> keeps the number of rows
  and changes nothing but the currency: row \<open>i\<close> of the output is row \<open>i\<close> of the input
  with a currency. The currency differs from the input's only where the input had the
  sentinel \<open>''NA''\<close> and the customer's country has an entry in the currency map; a
  sentinel row whose customer is missing or whose country has no entry keeps the
  sentinel.
\<close>

theorem infer_currency_frame:
  assumes "distinct (map c_customer_id customers)"
  shows "length (infer_currency_from_country transactions customers) = length transactions \<and>
    (\<forall>i < length transactions.
       infer_currency_from_country transactions customers ! i =
         (transactions ! i)\<lparr>currency :=
            currency (infer_currency_from_country transactions customers ! i)\<rparr> \<and>
       (currency (infer_currency_from_country transactions customers ! i) \<noteq>
          currency (transactions ! i) \<longrightarrow>
        currency (transactions ! i) = ''NA'' \<and>
        (\<exists>c \<in> set customers. c_customer_id c = customer_id (transactions ! i) \<and>
           COUNTRY_CURRENCY_MAP (c_country c) =
             Some (currency (infer_currency_from_country transactions customers ! i)))) \<and>
       (currency (transactions ! i) = ''NA'' \<and>
        (customer_id (transactions ! i) \<notin> c_customer_id ` set customers \<or>
         (\<exists>c \<in> set customers. c_customer_id c = customer_id (transactions ! i) \<and>
            COUNTRY_CURRENCY_MAP (c_country c) = None)) \<longrightarrow>
        currency (infer_currency_from_country transactions customers ! i) = ''NA''))"
proof (intro conjI allI impI)
  show "length (infer_currency_from_country transactions customers) = length transactions"
    by (simp add: infer_unique [OF assms])
next
  fix i assume i: "i < length transactions"
  then have row: "infer_currency_from_country transactions customers ! i =
      (transactions ! i)\<lparr>currency := inferred_currency customers (transactions ! i)\<rparr>"
    by (simp add: infer_unique [OF assms])
  show "infer_currency_from_country transactions customers ! i =
         (transactions ! i)\<lparr>currency :=
            currency (infer_currency_from_country transactions customers ! i)\<rparr>"
    by (simp add: row)
  {
    assume "currency (infer_currency_from_country transactions customers ! i) \<noteq>
          currency (transactions ! i)"
    then have neq: "inferred_currency customers (transactions ! i) \<noteq> currency (transactions ! i)"
      by (simp add: row)
    from inferred_currency_cases [OF neq]
    show "currency (transactions ! i) = ''NA''" by simp
    from inferred_currency_cases [OF neq]
    show "\<exists>c \<in> set customers. c_customer_id c = customer_id (transactions ! i) \<and>
           COUNTRY_CURRENCY_MAP (c_country c) =
             Some (currency (infer_currency_from_country transactions customers ! i))"
      by (simp add: row)
  }
  {
    assume "currency (transactions ! i) = ''NA'' \<and>
        (customer_id (transactions ! i) \<notin> c_customer_id ` set customers \<or>
         (\<exists>c \<in> set customers. c_customer_id c = customer_id (transactions ! i) \<and>
            COUNTRY_CURRENCY_MAP (c_country c) = None))"
    then have "inferred_currency customers (transactions ! i) = ''NA''"
      using inferred_currency_sentinel [OF assms] by blast
    then show "currency (infer_currency_from_country transactions customers ! i) = ''NA''"
      by (simp add: row)
  }
qed

lemma example_customers_distinct: "distinct (map c_customer_id example_customers)"
  by (simp add: example_customers_def)

lemma example_infer:
  "map currency (infer_currency_from_country example_transactions example_customers) =
     [''DKK'', ''DKK'', ''EUR'', ''NA'', ''NA'']"
  by (simp add: infer_currency_from_country_def left_join_country_def example_transactions_def
      example_customers_def replace_strict_def COUNTRY_CURRENCY_MAP_def)

theorem infer_currency_frame_witness:
  "distinct (map c_customer_id example_customers) \<and>
   length (infer_currency_from_country example_transactions example_customers) = 5 \<and>
   map currency (infer_currency_from_country example_transactions example_customers) =
     [''DKK'', ''DKK'', ''EUR'', ''NA'', ''NA'']"
  using infer_currency_frame [OF example_customers_distinct, of example_transactions]
    example_customers_distinct example_infer
  by (simp add: example_transactions_def)

text \<open>
  C6. Currency inference against a customer table with unique ids (a cleaned one) is
  idempotent, and a row that bears a real currency is left as it is.
\<close>

theorem infer_currency_idempotent:
  assumes "distinct (map c_customer_id customers)"
  shows "infer_currency_from_country (infer_currency_from_country transactions customers) customers =
           infer_currency_from_country transactions customers \<and>
         (\<forall>i < length transactions.
            currency (transactions ! i) \<noteq> ''NA'' \<longrightarrow>
            infer_currency_from_country transactions customers ! i = transactions ! i)"
proof
  have "\<And>t. inferred_currency customers (t\<lparr>currency := inferred_currency customers t\<rparr>) =
             inferred_currency customers t"
    by (rule inferred_currency_again)
  then show "infer_currency_from_country (infer_currency_from_country transactions customers) customers =
           infer_currency_from_country transactions customers"
    by (simp add: infer_unique [OF assms] o_def)
  show "\<forall>i < length transactions.
            currency (transactions ! i) \<noteq> ''NA'' \<longrightarrow>
            infer_currency_from_country transactions customers ! i = transactions ! i"
    by (simp add: infer_unique [OF assms] inferred_currency_def)
qed

theorem infer_currency_idempotent_witness:
  "distinct (map c_customer_id example_customers) \<and>
   infer_currency_from_country
     (infer_currency_from_country example_transactions example_customers) example_customers =
   infer_currency_from_country example_transactions example_customers \<and>
   infer_currency_from_country example_transactions example_customers ! 0 = example_transactions ! 0"
proof -
  have "currency (example_transactions ! 0) \<noteq> ''NA''" "0 < length example_transactions"
    by (simp_all add: example_transactions_def)
  with infer_currency_idempotent [OF example_customers_distinct, of example_transactions]
    example_customers_distinct
  show ?thesis by blast
qed

section \<open>Properties of the flag engine\<close>

lemma flag_row_fields:
  "is_high_value (flag_row th cd r) = ge_nullable (Some (total_spend r)) th"
  "is_churning (flag_row th cd r) = ge_nullable (days_since_last_transaction r) (Some cd)"
  "is_churning_2 (flag_row th cd r) =
     gt_nullable (map_option real_of_int (days_since_last_transaction r))
       (case mean_interevent_days r of
          None \<Rightarrow> None
        | Some m \<Rightarrow> (case std_interevent_days r of
                      None \<Rightarrow> None
                    | Some s \<Rightarrow> Some (m + CHURN_Z_SCORE_THRESHOLD * s)))"
  "has_single_transaction (flag_row th cd r) = (transaction_count r = 1)"
  "transaction_count (flag_row th cd r) = transaction_count r"
  "total_spend (flag_row th cd r) = total_spend r"
  "f_customer_id (flag_row th cd r) = f_customer_id r"
  by (simp_all add: flag_row_def features.defs flagged.defs)

lemma gt_nullable_null: "gt_nullable a None = None"
  by (simp add: gt_nullable_def split: option.splits)

lemma flag_row_churn_null:
  "mean_interevent_days r = None \<or> std_interevent_days r = None \<Longrightarrow>
   is_churning_2 (flag_row th cd r) = None"
  by (auto simp: flag_row_fields gt_nullable_null split: option.splits)

lemma quantile_returns:
  assumes "0 \<le> q" "q \<le> 1"
  shows "quantile col q =
     Inr (if col = [] then None
          else Some (sort col ! nat (round ((real (length col) - 1) * q))))"
  using assms by (simp add: quantile_def)

lemma nearest_index_bound:
  assumes "col \<noteq> []" "0 \<le> q" "q \<le> 1"
  shows "nat (round ((real (length col) - 1) * q)) < length col"
proof -
  have pos: "0 \<le> real (length col) - 1"
    using assms(1) by (cases col) simp_all
  have "(real (length col) - 1) * q \<le> (real (length col) - 1) * 1"
    using pos assms(3) by (rule mult_left_mono [rotated])
  then have "(real (length col) - 1) * q \<le> real_of_int (int (length col) - 1)"
    by simp
  then have "round ((real (length col) - 1) * q) \<le> round (real_of_int (int (length col) - 1))"
    by (rule round_mono)
  then have "round ((real (length col) - 1) * q) \<le> int (length col) - 1"
    by (simp only: round_of_int)
  moreover have "0 < length col"
    using assms(1) by simp
  ultimately show ?thesis by linarith
qed

lemma add_customer_flags_returns:
  assumes "0 \<le> (case hp of None \<Rightarrow> HIGH_VALUE_PERCENTILE | Some x \<Rightarrow> x)"
    and "(case hp of None \<Rightarrow> HIGH_VALUE_PERCENTILE | Some x \<Rightarrow> x) \<le> 1"
  shows "add_customer_flags feats hp cd =
     Inr (map (flag_row
                 (if feats = [] then None
                  else Some (sort (map total_spend feats) !
                       nat (round ((real (length feats) - 1) *
                         (case hp of None \<Rightarrow> HIGH_VALUE_PERCENTILE | Some x \<Rightarrow> x)))))
                 (case cd of None \<Rightarrow> CHURN_DAYS | Some x \<Rightarrow> x)) feats)"
  using quantile_returns [OF assms, of "map total_spend feats"]
  by (simp add: add_customer_flags_def Let_def)

text \<open>
  C1 (as the code has it). When the percentile is in \<open>[0, 1]\<close>, \<open>add_customer_flags\<close>
  returns, and in every row whose \<open>mean_interevent_days\<close> or \<open>std_interevent_days\<close> is
  null the flag \<open>is_churning_2\<close> is null: neither true nor false.
\<close>

theorem churning_2_null:
  assumes "0 \<le> (case hp of None \<Rightarrow> HIGH_VALUE_PERCENTILE | Some x \<Rightarrow> x)"
    and "(case hp of None \<Rightarrow> HIGH_VALUE_PERCENTILE | Some x \<Rightarrow> x) \<le> 1"
  shows "\<exists>out. add_customer_flags feats hp cd = Inr out \<and> length out = length feats \<and>
           (\<forall>i < length feats.
              mean_interevent_days (feats ! i) = None \<or> std_interevent_days (feats ! i) = None \<longrightarrow>
              is_churning_2 (out ! i) = None)"
  by (simp add: add_customer_flags_returns [OF assms] flag_row_churn_null)

lemma default_percentile_range:
  "0 \<le> (case None of None \<Rightarrow> HIGH_VALUE_PERCENTILE | Some x \<Rightarrow> x)"
  "(case None of None \<Rightarrow> HIGH_VALUE_PERCENTILE | Some x \<Rightarrow> x) \<le> 1"
  by (simp_all add: HIGH_VALUE_PERCENTILE_def)

theorem churning_2_null_witness:
  "(\<exists>out. add_customer_flags example_features None None = Inr out \<and> length out = 4 \<and>
      is_churning_2 (out ! 0) = None) \<and>
   mean_interevent_days (example_features ! 0) = None"
proof -
  have m: "mean_interevent_days (example_features ! 0) = None" "length example_features = 4"
    by (simp_all add: example_features_def example_feature_def)
  from churning_2_null [OF default_percentile_range, of example_features None] m
  show ?thesis by auto
qed

text \<open>
  The claim C1 read as stated fails: the single-transaction customer of the example has
  no interevent mean, and its flag is null, not false.
\<close>

theorem churning_2_not_false:
  "map_sum id (map is_churning_2) (add_customer_flags [example_feature 1 10] None None) =
     Inr [None] \<and>
   mean_interevent_days (example_feature 1 10) = None"
  by (simp add: add_customer_flags_returns [OF default_percentile_range] flag_row_churn_null
      example_feature_def)

text \<open>
  C2 (as the code has it). On a non-empty feature table and a percentile \<open>p\<close> in
  \<open>[0, 1]\<close>, \<open>add_customer_flags\<close> returns; the threshold is the element of the sorted
  \<open>total_spend\<close> column at the index nearest to \<open>(n - 1) * p\<close> (the library's default,
  \<open>"nearest"\<close>, not a linear interpolation), so it is one of the values of the column;
  and \<open>is_high_value\<close> is true exactly when \<open>total_spend\<close> is at least the threshold.
\<close>

theorem high_value_nearest:
  assumes "feats \<noteq> []"
    and "0 \<le> (case hp of None \<Rightarrow> HIGH_VALUE_PERCENTILE | Some x \<Rightarrow> x)"
    and "(case hp of None \<Rightarrow> HIGH_VALUE_PERCENTILE | Some x \<Rightarrow> x) \<le> 1"
  shows "\<exists>out th. add_customer_flags feats hp cd = Inr out \<and> length out = length feats \<and>
           th = sort (map total_spend feats) !
                  nat (round ((real (length feats) - 1) *
                    (case hp of None \<Rightarrow> HIGH_VALUE_PERCENTILE | Some x \<Rightarrow> x))) \<and>
           th \<in> set (map total_spend feats) \<and>
           (\<forall>i < length feats. is_high_value (out ! i) = Some (th \<le> total_spend (feats ! i)))"
proof -
  let ?p = "case hp of None \<Rightarrow> HIGH_VALUE_PERCENTILE | Some x \<Rightarrow> x"
  let ?col = "map total_spend feats"
  let ?th = "sort ?col ! nat (round ((real (length feats) - 1) * ?p))"
  have "nat (round ((real (length ?col) - 1) * ?p)) < length ?col"
    using assms by (intro nearest_index_bound) simp_all
  then have "nat (round ((real (length feats) - 1) * ?p)) < length (sort ?col)"
    by simp
  then have "?th \<in> set (sort ?col)"
    by (rule nth_mem)
  then have mem: "?th \<in> set ?col"
    by simp
  have "add_customer_flags feats hp cd =
          Inr (map (flag_row (Some ?th) (case cd of None \<Rightarrow> CHURN_DAYS | Some x \<Rightarrow> x)) feats)"
    using assms(1) by (simp add: add_customer_flags_returns [OF assms(2,3)])
  moreover have "\<forall>i < length feats.
      is_high_value (map (flag_row (Some ?th) (case cd of None \<Rightarrow> CHURN_DAYS | Some x \<Rightarrow> x)) feats ! i)
        = Some (?th \<le> total_spend (feats ! i))"
    by (simp add: flag_row_fields ge_nullable_def)
  ultimately show ?thesis using mem by simp
qed

lemma example_features_flags:
  "map_sum id (map is_high_value) (add_customer_flags example_features None None) =
     Inr [Some False, Some False, Some True, Some True]"
  by (simp add: add_customer_flags_returns [OF default_percentile_range] flag_row_fields
      ge_nullable_def example_features_def example_feature_def HIGH_VALUE_PERCENTILE_def
      round_def)

theorem high_value_nearest_witness:
  "example_features \<noteq> [] \<and>
   (\<exists>out th. add_customer_flags example_features None None = Inr out \<and> length out = 4 \<and>
      th \<in> set (map total_spend example_features) \<and>
      is_high_value (out ! 0) = Some (th \<le> total_spend (example_features ! 0)))"
proof -
  have ne: "example_features \<noteq> []" and len: "length example_features = 4"
    by (simp_all add: example_features_def)
  from high_value_nearest [OF ne default_percentile_range, of None] len ne
  show ?thesis by auto
qed

text \<open>
  The claim C2 read as stated fails. For the spends 0, 10, 20, 30 and the default
  percentile the linear interpolation between order statistics is 24, yet the customer
  with spend 20 is flagged: the code's threshold is the order statistic 20.
\<close>

theorem high_value_not_linear:
  "map_sum id (map is_high_value) (add_customer_flags example_features None None) =
     Inr [Some False, Some False, Some True, Some True] \<and>
   map total_spend example_features = [0, 10, 20, 30] \<and>
   quantile_linear (map total_spend example_features) HIGH_VALUE_PERCENTILE = 24"
  by (simp add: example_features_flags)
     (simp add: quantile_linear_def example_features_def example_feature_def
      HIGH_VALUE_PERCENTILE_def)

section \<open>Properties of the RFM aggregator\<close>

lemma txn_eur_fields:
  "customer_id (txn.extend t (txn_eur.fields x)) = customer_id t"
  "transaction_id (txn.extend t (txn_eur.fields x)) = transaction_id t"
  "timestamp (txn.extend t (txn_eur.fields x)) = timestamp t"
  "category (txn.extend t (txn_eur.fields x)) = category t"
  "currency (txn.extend t (txn_eur.fields x)) = currency t"
  "amount (txn.extend t (txn_eur.fields x)) = amount t"
  "amount_in_eur (txn.extend t (txn_eur.fields x)) = x"
  by (simp_all add: txn.defs txn_eur.defs)

lemma compute_rfm_features_rows:
  assumes "compute_rfm_features pl transactions reference_date = Inr out"
  obtains d where "out = map (rfm_row pl d transactions) (remdups (map customer_id transactions))"
    and "reference_date = Some d \<or>
         (reference_date = None \<and> (\<exists>m. agg_max (map timestamp transactions) = Some m \<and> d = dt_date m))"
  using assms by (auto simp: compute_rfm_features_def split: option.splits sum.splits)

lemma rfm_row_customer: "f_customer_id (rfm_row pl d transactions c) = c"
  by (simp add: rfm_row_def Let_def)

lemma drop_nulls_set: "set (drop_nulls col) = {x. Some x \<in> set col}"
  by (induction col rule: drop_nulls.induct) auto

lemma agg_max_Some:
  "agg_max col = Some m \<longleftrightarrow> Some m \<in> set col \<and> (\<forall>x. Some x \<in> set col \<longrightarrow> x \<le> m)"
proof (cases "drop_nulls col")
  case Nil
  then have "{x. Some x \<in> set col} = {}"
    using drop_nulls_set [of col] by simp
  with Nil show ?thesis by (auto simp: agg_max_def)
next
  case (Cons y ys)
  then have s: "{x. Some x \<in> set col} = set (y # ys)"
    using drop_nulls_set [of col] by simp
  have "agg_max col = Some (Max (set (y # ys)))"
    unfolding Max.set_eq_fold by (simp add: agg_max_def Cons)
  moreover have "Max (set (y # ys)) = m \<longleftrightarrow> m \<in> set (y # ys) \<and> (\<forall>x \<in> set (y # ys). x \<le> m)"
    by (rule Max_eq_iff) simp_all
  ultimately show ?thesis
    unfolding s [symmetric] by auto
qed

lemma agg_max_None: "agg_max col = None \<longleftrightarrow> (\<forall>x. Some x \<notin> set col)"
proof (cases "drop_nulls col")
  case Nil
  then have "{x. Some x \<in> set col} = {}"
    using drop_nulls_set [of col] by simp
  with Nil show ?thesis by (auto simp: agg_max_def)
next
  case (Cons y ys)
  then have "y \<in> set (drop_nulls col)"
    by simp
  then have "Some y \<in> set col"
    by (simp add: drop_nulls_set)
  with Cons show ?thesis by (auto simp: agg_max_def)
qed

lemma single_group_interevent:
  assumes "group_of c transactions = [t]"
  shows "interevent_stats c transactions = (None, None)"
proof -
  have "group_of c (sort_key (\<lambda>t. (customer_id t, timestamp t)) transactions) =
        sort_key (\<lambda>t. (customer_id t, timestamp t)) (group_of c transactions)"
    by (simp add: group_of_def filter_sort)
  then have "group_of c (sort_key (\<lambda>t. (customer_id t, timestamp t)) transactions) = [t]"
    by (simp add: assms)
  then have "interevent_days c transactions = [None]"
    by (simp add: interevent_days_def Let_def shift1_def minus_nullable_def split: option.splits)
  then show ?thesis
    by (simp add: interevent_stats_def)
qed

lemma single_group_row:
  assumes "group_of c transactions = [t]"
  shows "transaction_count (rfm_row pl d transactions c) = 1"
    and "std_transaction_amount (rfm_row pl d transactions c) = None"
    and "mean_interevent_days (rfm_row pl d transactions c) = None"
    and "std_interevent_days (rfm_row pl d transactions c) = None"
    and "customer_tenure_days (rfm_row pl d transactions c) =
           (case timestamp t of None \<Rightarrow> None | Some ts \<Rightarrow> Some 0)"
proof -
  show "transaction_count (rfm_row pl d transactions c) = 1"
    by (simp add: rfm_row_def Let_def assms)
  have "length (drop_nulls [amount_in_eur t]) \<le> 1"
    by (cases "amount_in_eur t") simp_all
  then show "std_transaction_amount (rfm_row pl d transactions c) = None"
    by (simp add: rfm_row_def Let_def assms agg_std_def)
  show "mean_interevent_days (rfm_row pl d transactions c) = None"
    by (simp add: rfm_row_def Let_def single_group_interevent [OF assms])
  show "std_interevent_days (rfm_row pl d transactions c) = None"
    by (simp add: rfm_row_def Let_def single_group_interevent [OF assms])
  show "customer_tenure_days (rfm_row pl d transactions c) =
           (case timestamp t of None \<Rightarrow> None | Some ts \<Rightarrow> Some 0)"
    by (cases "timestamp t")
       (simp_all add: rfm_row_def Let_def assms agg_max_def agg_min_def minus_nullable_def)
qed

lemma flags_single_transaction:
  assumes "add_customer_flags feats hp cd = Inr fl" and "f \<in> set fl"
  shows "has_single_transaction f = (transaction_count f = 1)"
proof -
  from assms(1) obtain th cd' where "fl = map (flag_row th cd') feats"
    by (auto simp: add_customer_flags_def Let_def split: sum.splits)
  with assms(2) obtain r where "f = flag_row th cd' r" by auto
  then show ?thesis by (simp add: flag_row_fields)
qed

text \<open>
  C3 (as the code has it). When \<open>compute_rfm_features\<close> returns, a customer with exactly
  one transaction has a feature row, and every row of that customer has
  \<open>transaction_count = 1\<close>, a null \<open>std_transaction_amount\<close>, null
  \<open>mean_interevent_days\<close> and \<open>std_interevent_days\<close>, and \<open>customer_tenure_days = 0\<close> when
  the transaction has a timestamp, null when its timestamp is null. The flag
  \<open>has_single_transaction\<close> of \<open>add_customer_flags\<close> is true exactly when
  \<open>transaction_count = 1\<close>.
\<close>

theorem single_transaction_features:
  assumes "compute_rfm_features pl transactions reference_date = Inr out"
    and "group_of c transactions = [t]"
  shows "(\<exists>r \<in> set out. f_customer_id r = c) \<and>
         (\<forall>r \<in> set out. f_customer_id r = c \<longrightarrow>
            transaction_count r = 1 \<and> std_transaction_amount r = None \<and>
            mean_interevent_days r = None \<and> std_interevent_days r = None \<and>
            customer_tenure_days r = (case timestamp t of None \<Rightarrow> None | Some ts \<Rightarrow> Some 0)) \<and>
         (add_customer_flags out hp cd = Inr fl \<longrightarrow>
            (\<forall>f \<in> set fl. has_single_transaction f = (transaction_count f = 1)))"
proof (intro conjI)
  from assms(1) obtain d where
    out: "out = map (rfm_row pl d transactions) (remdups (map customer_id transactions))"
    by (rule compute_rfm_features_rows)
  have "t \<in> set (group_of c transactions)"
    by (simp add: assms(2))
  then have "c \<in> set (remdups (map customer_id transactions))"
    by (auto simp: group_of_def)
  then have "rfm_row pl d transactions c \<in> set out"
    by (simp add: out)
  then show "\<exists>r \<in> set out. f_customer_id r = c"
    using rfm_row_customer by blast
  show "\<forall>r \<in> set out. f_customer_id r = c \<longrightarrow>
            transaction_count r = 1 \<and> std_transaction_amount r = None \<and>
            mean_interevent_days r = None \<and> std_interevent_days r = None \<and>
            customer_tenure_days r = (case timestamp t of None \<Rightarrow> None | Some ts \<Rightarrow> Some 0)"
  proof (intro ballI impI)
    fix r assume "r \<in> set out" and c: "f_customer_id r = c"
    then obtain c' where "r = rfm_row pl d transactions c'"
      by (auto simp: out)
    with c have "r = rfm_row pl d transactions c"
      by (simp add: rfm_row_customer)
    then show "transaction_count r = 1 \<and> std_transaction_amount r = None \<and>
            mean_interevent_days r = None \<and> std_interevent_days r = None \<and>
            customer_tenure_days r = (case timestamp t of None \<Rightarrow> None | Some ts \<Rightarrow> Some 0)"
      by (simp add: single_group_row [OF assms(2)])
  qed
  show "add_customer_flags out hp cd = Inr fl \<longrightarrow>
            (\<forall>f \<in> set fl. has_single_transaction f = (transaction_count f = 1))"
    using flags_single_transaction by blast
qed

lemma example_table_rows:
  "map customer_id example_table = [1, 3]"
  "map timestamp example_table = [Some 86400000000, None]"
  "group_of 3 example_table = [example_table ! 1]"
  "group_of 1 example_table = [example_table ! 0]"
  by (simp_all add: example_table_def add_amount_in_eur_def example_transactions_def
      txn_eur_fields group_of_def)

lemma example_table_returns:
  "compute_rfm_features example_pl example_table None =
     Inr [rfm_row example_pl 1 example_table 1, rfm_row example_pl 1 example_table 3]"
  by (simp add: compute_rfm_features_def example_table_rows agg_max_def dt_date_def)

theorem single_transaction_features_witness:
  "compute_rfm_features example_pl example_table None =
     Inr [rfm_row example_pl 1 example_table 1, rfm_row example_pl 1 example_table 3] \<and>
   group_of 1 example_table = [example_table ! 0] \<and>
   transaction_count (rfm_row example_pl 1 example_table 1) = 1 \<and>
   customer_tenure_days (rfm_row example_pl 1 example_table 1) = Some 0"
proof -
  have ts: "timestamp (example_table ! 0) = Some 86400000000"
    using example_table_rows(2) by (simp add: example_table_def add_amount_in_eur_def)
  from single_transaction_features [OF example_table_returns example_table_rows(4)]
  have "\<forall>r \<in> set [rfm_row example_pl 1 example_table 1, rfm_row example_pl 1 example_table 3].
          f_customer_id r = 1 \<longrightarrow>
            transaction_count r = 1 \<and>
            customer_tenure_days r =
              (case timestamp (example_table ! 0) of None \<Rightarrow> None | Some ts \<Rightarrow> Some 0)"
    by blast
  then show ?thesis
    by (simp add: example_table_returns example_table_rows rfm_row_customer ts)
qed

text \<open>
  The claim C3 read as stated fails: customer 3 of the example has exactly one
  transaction, whose timestamp is null, and the tenure of its row is null, not 0.
\<close>

theorem single_transaction_tenure_null:
  "map_sum id (map (\<lambda>r. (f_customer_id r, transaction_count r, customer_tenure_days r)))
     (compute_rfm_features example_pl example_table None) =
   Inr [(1, 1, Some 0), (3, 1, None)]"
proof -
  have ts: "timestamp (example_table ! 0) = Some 86400000000"
    "timestamp (example_table ! Suc 0) = None"
    using example_table_rows(2) by (simp_all add: example_table_def add_amount_in_eur_def)
  show ?thesis
    by (simp add: example_table_returns rfm_row_customer
        single_group_row [OF example_table_rows(3)] single_group_row [OF example_table_rows(4)] ts)
qed

lemma rfm_row_recency:
  "last_transaction_date (rfm_row pl d transactions c) =
     agg_max (map timestamp (group_of c transactions))"
  "days_since_last_transaction (rfm_row pl d transactions c) =
     map_option (\<lambda>l. d - dt_date l) (agg_max (map timestamp (group_of c transactions)))"
  by (simp_all add: rfm_row_def Let_def)

lemma dt_date_mono: "a \<le> b \<Longrightarrow> dt_date a \<le> dt_date b"
  by (simp add: dt_date_def zdiv_mono1)

lemma group_timestamps:
  "Some x \<in> set (map timestamp (group_of c transactions)) \<longleftrightarrow>
   (\<exists>t \<in> set transactions. customer_id t = c \<and> timestamp t = Some x)"
  by (auto simp: group_of_def image_iff)

lemma group_last_bounded:
  assumes "agg_max (map timestamp transactions) = Some m"
    and "agg_max (map timestamp (group_of c transactions)) = Some l"
  shows "l \<le> m"
proof -
  from assms(2) have "Some l \<in> set (map timestamp (group_of c transactions))"
    by (simp add: agg_max_Some)
  then obtain t where "t \<in> set transactions" "timestamp t = Some l"
    unfolding group_timestamps by blast
  then have "Some l \<in> set (map timestamp transactions)"
    by force
  with assms(1) show ?thesis
    by (simp add: agg_max_Some)
qed

lemma group_last_of_latest:
  assumes "agg_max (map timestamp transactions) = Some m"
    and "t \<in> set transactions" and "timestamp t = Some m"
  shows "agg_max (map timestamp (group_of (customer_id t) transactions)) = Some m"
proof -
  have mem: "Some m \<in> set (map timestamp (group_of (customer_id t) transactions))"
    unfolding group_timestamps using assms(2,3) by blast
  then have "agg_max (map timestamp (group_of (customer_id t) transactions)) \<noteq> None"
    by (auto simp: agg_max_None)
  then obtain l where l: "agg_max (map timestamp (group_of (customer_id t) transactions)) = Some l"
    by auto
  then have "m \<le> l"
    using mem by (simp add: agg_max_Some)
  moreover have "l \<le> m"
    using assms(1) l by (rule group_last_bounded)
  ultimately show ?thesis
    using l by simp
qed

text \<open>
  C10 (as the code has it). Called without a reference date on a table that has at
  least one timestamp, \<open>compute_rfm_features\<close> returns, and the reference date is the
  date of the latest timestamp \<open>m\<close> of the table. In every output row
  \<open>days_since_last_transaction\<close> is the reference date minus the date of the customer's
  last transaction; it is never negative, it is null exactly for a customer all of
  whose timestamps are null, and it is 0 for the customer of a transaction with the
  latest timestamp.
\<close>

theorem default_reference_date:
  assumes "t0 \<in> set transactions" and "timestamp t0 \<noteq> None"
  shows "\<exists>out m. compute_rfm_features pl transactions None = Inr out \<and>
           agg_max (map timestamp transactions) = Some m \<and>
           (\<forall>r \<in> set out.
              days_since_last_transaction r =
                map_option (\<lambda>l. dt_date m - dt_date l) (last_transaction_date r) \<and>
              (\<forall>d. days_since_last_transaction r = Some d \<longrightarrow> 0 \<le> d) \<and>
              (days_since_last_transaction r = None \<longleftrightarrow>
                 (\<forall>t \<in> set transactions. customer_id t = f_customer_id r \<longrightarrow> timestamp t = None))) \<and>
           (\<forall>t \<in> set transactions. timestamp t = Some m \<longrightarrow>
              (\<exists>r \<in> set out. f_customer_id r = customer_id t \<and>
                 days_since_last_transaction r = Some 0))"
proof -
  from assms(2) obtain x where "timestamp t0 = Some x"
    by auto
  with assms(1) have "Some x \<in> set (map timestamp transactions)"
    by force
  then have "agg_max (map timestamp transactions) \<noteq> None"
    by (auto simp: agg_max_None)
  then obtain m where m: "agg_max (map timestamp transactions) = Some m"
    by auto
  define out where
    "out = map (rfm_row pl (dt_date m) transactions) (remdups (map customer_id transactions))"
  have ret: "compute_rfm_features pl transactions None = Inr out"
    by (simp add: compute_rfm_features_def m out_def)
  have rows: "\<forall>r \<in> set out.
      days_since_last_transaction r =
        map_option (\<lambda>l. dt_date m - dt_date l) (last_transaction_date r) \<and>
      (\<forall>d. days_since_last_transaction r = Some d \<longrightarrow> 0 \<le> d) \<and>
      (days_since_last_transaction r = None \<longleftrightarrow>
         (\<forall>t \<in> set transactions. customer_id t = f_customer_id r \<longrightarrow> timestamp t = None))"
  proof
    fix r assume "r \<in> set out"
    then obtain c where r: "r = rfm_row pl (dt_date m) transactions c"
      by (auto simp: out_def)
    let ?last = "agg_max (map timestamp (group_of c transactions))"
    have a: "days_since_last_transaction r =
        map_option (\<lambda>l. dt_date m - dt_date l) (last_transaction_date r)"
      by (simp add: r rfm_row_recency)
    have b: "\<forall>d. days_since_last_transaction r = Some d \<longrightarrow> 0 \<le> d"
    proof (intro allI impI)
      fix d assume "days_since_last_transaction r = Some d"
      then obtain l where l: "?last = Some l" and d: "d = dt_date m - dt_date l"
        by (auto simp: r rfm_row_recency)
      from m l have "l \<le> m" by (rule group_last_bounded)
      then have "dt_date l \<le> dt_date m" by (rule dt_date_mono)
      with d show "0 \<le> d" by simp
    qed
    have "?last = None \<longleftrightarrow> (\<forall>t \<in> set transactions. customer_id t = c \<longrightarrow> timestamp t = None)"
      unfolding agg_max_None group_timestamps by (metis not_None_eq)
    then have c: "days_since_last_transaction r = None \<longleftrightarrow>
         (\<forall>t \<in> set transactions. customer_id t = f_customer_id r \<longrightarrow> timestamp t = None)"
      by (simp add: r rfm_row_recency rfm_row_customer)
    from a b c show "days_since_last_transaction r =
        map_option (\<lambda>l. dt_date m - dt_date l) (last_transaction_date r) \<and>
      (\<forall>d. days_since_last_transaction r = Some d \<longrightarrow> 0 \<le> d) \<and>
      (days_since_last_transaction r = None \<longleftrightarrow>
         (\<forall>t \<in> set transactions. customer_id t = f_customer_id r \<longrightarrow> timestamp t = None))"
      by blast
  qed
  have latest: "\<forall>t \<in> set transactions. timestamp t = Some m \<longrightarrow>
      (\<exists>r \<in> set out. f_customer_id r = customer_id t \<and> days_since_last_transaction r = Some 0)"
  proof (intro ballI impI)
    fix t assume t: "t \<in> set transactions" "timestamp t = Some m"
    have "rfm_row pl (dt_date m) transactions (customer_id t) \<in> set out"
      using t(1) by (simp add: out_def)
    moreover have "days_since_last_transaction (rfm_row pl (dt_date m) transactions (customer_id t)) = Some 0"
      by (simp add: rfm_row_recency group_last_of_latest [OF m t])
    ultimately show "\<exists>r \<in> set out. f_customer_id r = customer_id t \<and>
        days_since_last_transaction r = Some 0"
      using rfm_row_customer by blast
  qed
  from ret m rows latest show ?thesis by blast
qed

theorem default_reference_date_witness:
  "example_table ! 0 \<in> set example_table \<and> timestamp (example_table ! 0) \<noteq> None \<and>
   (\<exists>out m. compute_rfm_features example_pl example_table None = Inr out \<and>
      agg_max (map timestamp example_table) = Some m)"
proof -
  have a: "example_table ! 0 \<in> set example_table"
    by (simp add: example_table_def add_amount_in_eur_def)
  have b: "timestamp (example_table ! 0) \<noteq> None"
    using example_table_rows(2) by (simp add: example_table_def add_amount_in_eur_def)
  from default_reference_date [OF a b, of example_pl] a b
  show ?thesis by blast
qed

text \<open>
  The claim C10 read as stated fails: the example table is not empty, and in the row of
  customer 3, whose only transaction has no timestamp, \<open>days_since_last_transaction\<close> is
  null, so it is not at least 0.
\<close>

theorem days_since_null:
  "map_sum id (map (\<lambda>r. (f_customer_id r, days_since_last_transaction r)))
     (compute_rfm_features example_pl example_table None) =
   Inr [(1, Some 0), (3, None)]"
proof -
  have ts: "timestamp (example_table ! 0) = Some 86400000000"
    "timestamp (example_table ! Suc 0) = None"
    using example_table_rows(2) by (simp_all add: example_table_def add_amount_in_eur_def)
  show ?thesis
    by (simp add: example_table_returns rfm_row_customer rfm_row_recency example_table_rows
        agg_max_def ts dt_date_def)
qed

section \<open>Amounts in EUR and the monetary aggregates\<close>

lemma group_amounts:
  "drop_nulls (map amount_in_eur (group_of c (add_amount_in_eur transactions))) =
   converted_amounts c transactions"
proof (induction transactions)
  case Nil
  show ?case by (simp add: group_of_def add_amount_in_eur_def converted_amounts_def)
next
  case (Cons t ts)
  have step: "group_of c (add_amount_in_eur (t # ts)) =
      (if customer_id t = c
       then [txn.extend t (txn_eur.fields
               (map_option (\<lambda>rate. round_to 2 (amount t * rate)) (CONVERSION_RATES (currency t))))]
       else []) @ group_of c (add_amount_in_eur ts)"
    by (simp add: group_of_def add_amount_in_eur_def txn_eur_fields)
  have "converted_amounts c (t # ts) =
      (if customer_id t = c
       then (case CONVERSION_RATES (currency t) of
               None \<Rightarrow> [] | Some rate \<Rightarrow> [round_to 2 (amount t * rate)])
       else []) @ converted_amounts c ts"
    by (simp add: converted_amounts_def)
  moreover have "\<And>xs ys. drop_nulls (xs @ ys) = drop_nulls xs @ (drop_nulls ys :: real list)"
  proof -
    fix xs ys :: "real option list"
    show "drop_nulls (xs @ ys) = drop_nulls xs @ drop_nulls ys"
      by (induction xs rule: drop_nulls.induct) simp_all
  qed
  ultimately show ?case
    using Cons by (simp add: step txn_eur_fields split: option.splits)
qed

lemma agg_min_list:
  "agg_min col = (if drop_nulls col = [] then None else Some (Min (set (drop_nulls col))))"
proof (cases "drop_nulls col")
  case Nil
  then show ?thesis by (simp add: agg_min_def)
next
  case (Cons y ys)
  have "Min (set (y # ys)) = fold min ys y"
    by (rule Min.set_eq_fold)
  then show ?thesis
    by (simp only: agg_min_def Cons list.case if_False list.distinct)
qed

lemma agg_max_list:
  "agg_max col = (if drop_nulls col = [] then None else Some (Max (set (drop_nulls col))))"
proof (cases "drop_nulls col")
  case Nil
  then show ?thesis by (simp add: agg_max_def)
next
  case (Cons y ys)
  have "Max (set (y # ys)) = fold max ys y"
    by (rule Max.set_eq_fold)
  then show ?thesis
    by (simp only: agg_max_def Cons list.case if_False list.distinct)
qed

lemma rfm_row_monetary:
  "total_spend (rfm_row pl d transactions c) =
     round_to 2 (agg_sum (map amount_in_eur (group_of c transactions)))"
  "avg_transaction_amount (rfm_row pl d transactions c) =
     map_option (round_to 2) (agg_mean (map amount_in_eur (group_of c transactions)))"
  "std_transaction_amount (rfm_row pl d transactions c) =
     map_option (round_to 2) (agg_std (map amount_in_eur (group_of c transactions)))"
  "min_transaction_amount (rfm_row pl d transactions c) =
     agg_min (map amount_in_eur (group_of c transactions))"
  "max_transaction_amount (rfm_row pl d transactions c) =
     agg_max (map amount_in_eur (group_of c transactions))"
  by (simp_all add: rfm_row_def Let_def)

text \<open>
  C4. \<open>add_amount_in_eur\<close> keeps every row and gives a null \<open>amount_in_eur\<close> to a row
  whose currency has no rate; it cannot raise. In every feature row computed from its
  output the monetary aggregates are those of the customer's converted amounts alone:
  rows with a null amount count neither in the sum nor in the number of values of the
  mean and of the standard deviation, nor in the minimum and maximum.
\<close>

theorem unmapped_currency_excluded:
  "length (add_amount_in_eur transactions) = length transactions \<and>
   (\<forall>i < length transactions.
      CONVERSION_RATES (currency (transactions ! i)) = None \<longrightarrow>
      amount_in_eur (add_amount_in_eur transactions ! i) = None) \<and>
   (compute_rfm_features pl (add_amount_in_eur transactions) reference_date = Inr out \<longrightarrow>
    (\<forall>r \<in> set out.
       total_spend r = round_to 2 (sum_list (converted_amounts (f_customer_id r) transactions)) \<and>
       avg_transaction_amount r =
         (if converted_amounts (f_customer_id r) transactions = [] then None
          else Some (round_to 2
                 (sum_list (converted_amounts (f_customer_id r) transactions) /
                  real (length (converted_amounts (f_customer_id r) transactions))))) \<and>
       std_transaction_amount r =
         (if length (converted_amounts (f_customer_id r) transactions) \<le> 1 then None
          else Some (round_to 2
                 (sqrt (sum_list (map (\<lambda>x.
                      (x - sum_list (converted_amounts (f_customer_id r) transactions) /
                           real (length (converted_amounts (f_customer_id r) transactions))) ^ 2)
                      (converted_amounts (f_customer_id r) transactions)) /
                  real (length (converted_amounts (f_customer_id r) transactions) - 1))))) \<and>
       min_transaction_amount r =
         (if converted_amounts (f_customer_id r) transactions = [] then None
          else Some (Min (set (converted_amounts (f_customer_id r) transactions)))) \<and>
       max_transaction_amount r =
         (if converted_amounts (f_customer_id r) transactions = [] then None
          else Some (Max (set (converted_amounts (f_customer_id r) transactions))))))"
proof (intro conjI allI impI ballI)
  show "length (add_amount_in_eur transactions) = length transactions"
    by (simp add: add_amount_in_eur_def)
next
  fix i assume "i < length transactions"
    and "CONVERSION_RATES (currency (transactions ! i)) = None"
  then show "amount_in_eur (add_amount_in_eur transactions ! i) = None"
    by (simp add: add_amount_in_eur_def txn_eur_fields)
next
  fix r
  assume ret: "compute_rfm_features pl (add_amount_in_eur transactions) reference_date = Inr out"
    and r: "r \<in> set out"
  from ret obtain d where
    "out = map (rfm_row pl d (add_amount_in_eur transactions))
             (remdups (map customer_id (add_amount_in_eur transactions)))"
    by (rule compute_rfm_features_rows)
  with r obtain c where "r = rfm_row pl d (add_amount_in_eur transactions) c"
    by auto
  then have row: "r = rfm_row pl d (add_amount_in_eur transactions) (f_customer_id r)"
    by (simp add: rfm_row_customer)
  note vals = group_amounts [of "f_customer_id r" transactions]
  show "total_spend r = round_to 2 (sum_list (converted_amounts (f_customer_id r) transactions))"
    by (subst row) (simp add: rfm_row_monetary agg_sum_def vals)
  show "avg_transaction_amount r =
         (if converted_amounts (f_customer_id r) transactions = [] then None
          else Some (round_to 2
                 (sum_list (converted_amounts (f_customer_id r) transactions) /
                  real (length (converted_amounts (f_customer_id r) transactions)))))"
    by (subst row) (simp add: rfm_row_monetary agg_mean_def vals Let_def)
  show "std_transaction_amount r =
         (if length (converted_amounts (f_customer_id r) transactions) \<le> 1 then None
          else Some (round_to 2
                 (sqrt (sum_list (map (\<lambda>x.
                      (x - sum_list (converted_amounts (f_customer_id r) transactions) /
                           real (length (converted_amounts (f_customer_id r) transactions))) ^ 2)
                      (converted_amounts (f_customer_id r) transactions)) /
                  real (length (converted_amounts (f_customer_id r) transactions) - 1)))))"
    by (subst row) (simp add: rfm_row_monetary agg_std_def vals Let_def)
  show "min_transaction_amount r =
         (if converted_amounts (f_customer_id r) transactions = [] then None
          else Some (Min (set (converted_amounts (f_customer_id r) transactions))))"
    by (subst row) (simp only: rfm_row_monetary agg_min_list vals)
  show "max_transaction_amount r =
         (if converted_amounts (f_customer_id r) transactions = [] then None
          else Some (Max (set (converted_amounts (f_customer_id r) transactions))))"
    by (subst row) (simp only: rfm_row_monetary agg_max_list vals)
qed

lemma example_unmapped_amounts:
  "map amount_in_eur (add_amount_in_eur example_unmapped) = [Some 10, None]"
  "converted_amounts 1 example_unmapped = [10]"
  "map customer_id (add_amount_in_eur example_unmapped) = [1, 1]"
  by (simp_all add: add_amount_in_eur_def example_unmapped_def txn_eur_fields
      converted_amounts_def CONVERSION_RATES_def round_to_def)

theorem unmapped_currency_excluded_witness:
  "compute_rfm_features example_pl (add_amount_in_eur example_unmapped) (Some 0) =
     Inr [rfm_row example_pl 0 (add_amount_in_eur example_unmapped) 1] \<and>
   map amount_in_eur (add_amount_in_eur example_unmapped) = [Some 10, None] \<and>
   total_spend (rfm_row example_pl 0 (add_amount_in_eur example_unmapped) 1) = 10 \<and>
   avg_transaction_amount (rfm_row example_pl 0 (add_amount_in_eur example_unmapped) 1) = Some 10"
proof -
  have ret: "compute_rfm_features example_pl (add_amount_in_eur example_unmapped) (Some 0) =
     Inr [rfm_row example_pl 0 (add_amount_in_eur example_unmapped) 1]"
    by (simp add: compute_rfm_features_def example_unmapped_amounts)
  have r2: "round_to 2 10 = 10"
    by (simp add: round_to_def)
  from unmapped_currency_excluded [of example_unmapped example_pl "Some 0"
      "[rfm_row example_pl 0 (add_amount_in_eur example_unmapped) 1]"] ret
  have "total_spend (rfm_row example_pl 0 (add_amount_in_eur example_unmapped) 1) = 10 \<and>
        avg_transaction_amount (rfm_row example_pl 0 (add_amount_in_eur example_unmapped) 1) = Some 10"
    by (simp add: rfm_row_customer example_unmapped_amounts r2)
  with ret show ?thesis
    by (simp add: example_unmapped_amounts)
qed

end
